theory Spec2Isabelle
  imports Main "HOL-Library.AList"
begin

section \<open>Data model of \<open>learning/train_with_job_array.py\<close>\<close>

text \<open>
  The script manipulates the object tree that the YAML loader returns. A value is one of
  Python's \<open>None\<close>, a bool, an int, a float, a str, a list or a dict, or an opaque
  object that an external library handed back (a function object, a policy specification,
  a trainer class). A dict is an association list in insertion order; \<open>AList.update\<close>
  overwrites the value of a key that is present in place and appends a new key at the end,
  as a Python dict does. A float is carried as mantissa and binary exponent: the script
  never computes with one.

  The descriptor is held by value. Every write of the script goes through one of the paths
  \<open>exp[k]\<close>, \<open>exp['config'][k]\<close> and \<open>exp['config']['multiagent'][k]\<close>; the model
  rebuilds the enclosing dicts around the changed one, which is what the in-place write
  amounts to when these three dict objects are not shared with any other place of the tree.
\<close>

datatype pyval =
    PNone
  | PBool bool
  | PInt int
  | PFloat int int
  | PStr string
  | PList "pyval list"
  | PDict "(pyval \<times> pyval) list"
  | PObj string

text \<open>The exceptions that the script's own statements can raise, and those of its callees.\<close>

datatype error =
    AssertionError
  | KeyError pyval
  | TypeError
  | AttributeError string
  | Raised string

fun ebind :: "error + 'a \<Rightarrow> ('a \<Rightarrow> error + 'b) \<Rightarrow> error + 'b" where
  "ebind (Inl e) f = Inl e"
| "ebind (Inr x) f = f x"

text \<open>
  \<open>d[k]\<close> for a string literal \<open>k\<close>: a lookup in a dict, \<open>KeyError\<close> on a missing key; on
  a list, a str or a scalar a string subscript raises \<open>TypeError\<close>.
\<close>

fun getitem :: "pyval \<Rightarrow> string \<Rightarrow> error + pyval" where
  "getitem (PDict d) k =
     (case map_of d (PStr k) of None \<Rightarrow> Inl (KeyError (PStr k)) | Some v \<Rightarrow> Inr v)"
| "getitem _ k = Inl TypeError"

text \<open>\<open>d[k] = v\<close> for a string literal \<open>k\<close>.\<close>

fun setitem :: "pyval \<Rightarrow> string \<Rightarrow> pyval \<Rightarrow> error + pyval" where
  "setitem (PDict d) k v = Inr (PDict (AList.update (PStr k) v d))"
| "setitem _ k v = Inl TypeError"

text \<open>\<open>del d[k]\<close> for a string literal \<open>k\<close>.\<close>

fun delitem :: "pyval \<Rightarrow> string \<Rightarrow> error + pyval" where
  "delitem (PDict d) k =
     (if PStr k \<in> fst ` set d then Inr (PDict (AList.delete (PStr k) d))
      else Inl (KeyError (PStr k)))"
| "delitem _ k = Inl TypeError"

text \<open>\<open>k in d.keys()\<close>: only a dict has \<open>keys\<close>.\<close>

fun has_key :: "pyval \<Rightarrow> string \<Rightarrow> error + bool" where
  "has_key (PDict d) k = Inr (PStr k \<in> fst ` set d)"
| "has_key _ k = Inl (AttributeError ''keys'')"

text \<open>\<open>exp['config'][k] = v\<close>: the config dict is fetched, then written.\<close>

definition set_config_item :: "pyval \<Rightarrow> string \<Rightarrow> pyval \<Rightarrow> error + pyval" where
  "set_config_item exp k v =
     ebind (getitem exp ''config'') (\<lambda>cfg.
     ebind (setitem cfg k v) (\<lambda>cfg'.
     setitem exp ''config'' cfg'))"

subsection \<open>Command line\<close>

text \<open>
  The fields of the parsed arguments that \<open>main\<close> reads. \<open>-v\<close> and \<open>-vv\<close> are two
  independent \<open>store_true\<close> options; an option that was not given is \<open>None\<close>.
\<close>

record args =
  config_file :: "string option"
  temp_dir :: string
  flag_v :: bool
  flag_vv :: bool
  local_mode :: bool
  job_array_module :: "string option"
  job_array_task_id :: "int option"

section \<open>The steps of \<open>main\<close>\<close>

subsection \<open>Lines 62 to 64: the single experiment\<close>

definition select_experiment :: "pyval \<Rightarrow> error + pyval" where
  "select_experiment experiments =
     (case experiments of
        PDict es \<Rightarrow>
          (let exp_names = map fst es in
           if length exp_names = 1
           then (case map_of es (exp_names ! 0) of
                   None \<Rightarrow> Inl (KeyError (exp_names ! 0))
                 | Some exp \<Rightarrow> Inr exp)
           else Inl AssertionError)
      | _ \<Rightarrow> Inl (AttributeError ''keys''))"

subsection \<open>Lines 71 to 77: verbosity\<close>

definition verbosity_step :: "args \<Rightarrow> pyval \<Rightarrow> error + (pyval \<times> int)" where
  "verbosity_step a exp =
     (let verbose = 1 in
      ebind (if flag_v a
             then ebind (set_config_item exp ''log_level'' (PStr ''INFO''))
                    (\<lambda>exp'. Inr (exp', 2))
             else Inr (exp, verbose)) (\<lambda>(exp, verbose).
      if flag_vv a
      then ebind (set_config_item exp ''log_level'' (PStr ''DEBUG''))
             (\<lambda>exp'. Inr (exp', 3))
      else Inr (exp, verbose)))"

subsection \<open>Lines 78 and 79: local mode\<close>

definition local_mode_step :: "args \<Rightarrow> pyval \<Rightarrow> error + pyval" where
  "local_mode_step a exp =
     (if local_mode a then set_config_item exp ''num_workers'' (PInt 0) else Inr exp)"

text \<open>Reading \<open>exp['config'][k]\<close>; \<open>None\<close> when the path does not exist.\<close>

definition config_entry :: "pyval \<Rightarrow> string \<Rightarrow> pyval option" where
  "config_entry exp k =
     (case getitem exp ''config'' of
        Inr (PDict c) \<Rightarrow> map_of c (PStr k)
      | _ \<Rightarrow> None)"

subsection \<open>Lines 65 to 70: path-valued fields\<close>

text \<open>
  Modelled from the spec: \<open>misc.get_dict_value_by_str\<close> and
  \<open>misc.set_dict_value_by_str\<close>, helpers of this repository whose file is not part of the
  sources at hand. The spec has the step rewrite the path-valued fields of the descriptor
  and nothing else; for the one key in \<open>path_keys\<close>, a plain name, the helpers are the
  read \<open>exp[k]\<close> and the write \<open>exp[k] = v\<close>.
\<close>

definition get_dict_value_by_str :: "pyval \<Rightarrow> string \<Rightarrow> error + pyval" where
  "get_dict_value_by_str d k = getitem d k"

text \<open>
  Modelled from the spec: \<open>misc.set_dict_value_by_str\<close>, the write that goes with the
  read above; it changes the one field it is given.
\<close>

definition set_dict_value_by_str :: "pyval \<Rightarrow> string \<Rightarrow> pyval \<Rightarrow> error + pyval" where
  "set_dict_value_by_str d k v = setitem d k v"

text \<open>
  \<open>os.path.expanduser\<close> and \<open>os.path.abspath\<close> depend on the process's home and working
  directory; they are parameters. Both raise \<open>TypeError\<close> on a value that is not a path.
\<close>

record os_path =
  expanduser :: "string \<Rightarrow> string"
  abspath :: "string \<Rightarrow> string"

definition abs_expanded :: "os_path \<Rightarrow> pyval \<Rightarrow> error + pyval" where
  "abs_expanded os path =
     (case path of
        PStr p \<Rightarrow> Inr (PStr (abspath os (expanduser os p)))
      | _ \<Rightarrow> Inl TypeError)"

definition path_keys :: "string list" where
  "path_keys = [''local_dir'']"

fun normalize_paths :: "os_path \<Rightarrow> string list \<Rightarrow> pyval \<Rightarrow> error + pyval" where
  "normalize_paths os [] exp = Inr exp"
| "normalize_paths os (k # ks) exp =
     ebind (get_dict_value_by_str exp k) (\<lambda>path.
     ebind (abs_expanded os path) (\<lambda>path.
     ebind (set_dict_value_by_str exp k path) (\<lambda>exp.
     normalize_paths os ks exp)))"

subsection \<open>Lines 120 to 124: grid search\<close>

definition tune_keys :: "string list" where
  "tune_keys = [''lr'', ''num_sgd_iter'', ''train_batch_size'', ''sgd_minibatch_size'',
     ''vf_loss_coeff'', ''vf_clip_param'', ''entropy_coeff'', ''kl_coeff'', ''kl_target'',
     ''clip_param'']"

text \<open>\<open>isinstance(v, list)\<close>.\<close>

fun is_list :: "pyval \<Rightarrow> bool" where
  "is_list (PList xs) = True"
| "is_list _ = False"

text \<open>\<open>k in tune_keys\<close>, for a key of any type: a key that is not a str equals none of them.\<close>

fun in_tune_keys :: "pyval \<Rightarrow> bool" where
  "in_tune_keys (PStr k) = (k \<in> set tune_keys)"
| "in_tune_keys _ = False"

text \<open>
  The loop runs over the items of the config dict while it overwrites values of that same
  dict. The body writes only under the key it is visiting, and no key is added or removed,
  so each item is met with the value it had when the loop began: the model walks the items
  as they were and threads the dict. \<open>grid_search\<close> is \<open>tune.grid_search\<close>, a parameter.
\<close>

fun grid_loop ::
  "(pyval \<Rightarrow> pyval) \<Rightarrow> (pyval \<times> pyval) list \<Rightarrow> (pyval \<times> pyval) list \<Rightarrow> (pyval \<times> pyval) list"
where
  "grid_loop grid_search [] cfg = cfg"
| "grid_loop grid_search ((k, v) # items) cfg =
     grid_loop grid_search items
       (if in_tune_keys k \<and> is_list v then AList.update k (grid_search v) cfg else cfg)"

definition grid_step :: "(pyval \<Rightarrow> pyval) \<Rightarrow> pyval \<Rightarrow> error + pyval" where
  "grid_step grid_search exp =
     ebind (getitem exp ''config'') (\<lambda>cfg.
       case cfg of
         PDict c \<Rightarrow> setitem exp ''config'' (PDict (grid_loop grid_search c c))
       | _ \<Rightarrow> Inl (AttributeError ''items''))"

subsection \<open>Lines 127 to 133: the shape the runner expects\<close>

definition move_env :: "pyval \<Rightarrow> error + pyval" where
  "move_env exp =
     ebind (getitem exp ''env'') (\<lambda>env.
     ebind (set_config_item exp ''env'' env) (\<lambda>exp.
     delitem exp ''env''))"

text \<open>\<open>exp[k] = None if k not in exp.keys() else exp[k]\<close>.\<close>

definition default_none :: "string \<Rightarrow> pyval \<Rightarrow> error + pyval" where
  "default_none k exp =
     ebind (has_key exp k) (\<lambda>present.
     ebind (if \<not> present then Inr PNone else getitem exp k) (\<lambda>v.
     setitem exp k v))"

definition reshape_step :: "pyval \<Rightarrow> error + pyval" where
  "reshape_step exp =
     ebind (move_env exp) (\<lambda>exp.
     ebind (default_none ''restore'' exp) (\<lambda>exp.
     ebind (default_none ''keep_checkpoints_num'' exp) (\<lambda>exp.
     default_none ''resources_per_trial'' exp)))"

text \<open>What the three optional keys are to hold: the value that was there, else \<open>None\<close>.\<close>

definition or_none :: "pyval option \<Rightarrow> pyval" where
  "or_none x = (case x of None \<Rightarrow> PNone | Some v \<Rightarrow> v)"

subsection \<open>Lines 139 to 152: the arguments of \<open>tune.run\<close>\<close>

record run_args =
  run_trainer :: pyval
  run_name :: pyval
  run_stop :: pyval
  run_config :: pyval
  run_resources_per_trial :: pyval
  run_num_samples :: pyval
  run_local_dir :: pyval
  run_keep_checkpoints_num :: pyval
  run_checkpoint_freq :: pyval
  run_checkpoint_at_end :: pyval
  run_verbose :: int
  run_trial_name_creator :: pyval
  run_restore :: pyval

text \<open>The arguments are evaluated from left to right; the first missing key raises.\<close>

definition assemble_run_args :: "pyval \<Rightarrow> pyval \<Rightarrow> int \<Rightarrow> pyval \<Rightarrow> error + run_args" where
  "assemble_run_args trainer exp_name verbose exp =
     ebind (getitem exp ''stop'') (\<lambda>stop.
     ebind (getitem exp ''config'') (\<lambda>config.
     ebind (getitem exp ''resources_per_trial'') (\<lambda>resources_per_trial.
     ebind (getitem exp ''num_samples'') (\<lambda>num_samples.
     ebind (getitem exp ''local_dir'') (\<lambda>local_dir.
     ebind (getitem exp ''keep_checkpoints_num'') (\<lambda>keep_checkpoints_num.
     ebind (getitem exp ''checkpoint_freq'') (\<lambda>checkpoint_freq.
     ebind (getitem exp ''checkpoint_at_end'') (\<lambda>checkpoint_at_end.
     ebind (getitem exp ''trial_name_creator'') (\<lambda>creator.
     ebind (getitem exp ''restore'') (\<lambda>restore.
     Inr \<lparr> run_trainer = trainer, run_name = exp_name, run_stop = stop,
           run_config = config, run_resources_per_trial = resources_per_trial,
           run_num_samples = num_samples, run_local_dir = local_dir,
           run_keep_checkpoints_num = keep_checkpoints_num,
           run_checkpoint_freq = checkpoint_freq,
           run_checkpoint_at_end = checkpoint_at_end, run_verbose = verbose,
           run_trial_name_creator = creator, run_restore = restore \<rparr>))))))))))"

section \<open>Calls that leave the script\<close>

text \<open>
  The modules \<open>misc\<close>, \<open>policies\<close>, \<open>trainers\<close> and \<open>job_array\<close>, and the libraries
  \<open>ray\<close>, \<open>ray.tune\<close> and \<open>importlib\<close>, are not part of the file; \<open>main\<close> takes what
  they return as parameters. A call may raise, so it returns a sum. A module is the table
  of its attributes; the one attribute that \<open>main\<close> asks for is called with the descriptor
  and the task id, and its result is unpacked into a pair. The methods of the policy
  manager are functions of their argument.
\<close>

type_synonym callback = "pyval \<Rightarrow> pyval \<Rightarrow> error + (pyval \<times> pyval)"

type_synonym pymodule = "string \<Rightarrow> callback option"

record policy_manager =
  agent_ids :: pyval
  get_policy :: "pyval \<Rightarrow> error + pyval"
  get_policy_mapping_fn :: "pyval \<Rightarrow> error + pyval"

record externals =
  load_yaml :: "string option \<Rightarrow> error + pyval"
  import_module :: "string \<Rightarrow> error + pymodule"
  register_custom_env :: "pyval \<Rightarrow> error + pyval"
  register_custom_model :: "pyval \<Rightarrow> error + unit"
  ray_init :: "bool \<Rightarrow> string \<Rightarrow> pyval \<Rightarrow> pyval \<Rightarrow> error + unit"
  PolicyManager :: "pyval \<Rightarrow> pyval \<Rightarrow> error + policy_manager"
  set_callbacks :: "pyval \<Rightarrow> pyval \<Rightarrow> error + pyval"
  grid_search :: "pyval \<Rightarrow> pyval"
  get_trainer_class :: "pyval \<Rightarrow> error + pyval"
  tune_run :: "run_args \<Rightarrow> error + pyval"
  ray_shutdown :: "error + unit"

text \<open>
  What the script did is a list of the calls that left it, in order, with the value
  \<open>main\<close> returned or the exception that ended it.
\<close>

datatype event =
    LoadYaml "string option"
  | ImportModule string
  | UpdateExpByTaskId pyval pyval
  | Print string
  | PPrint pyval
  | RegisterCustomEnv pyval
  | RegisterCustomModel pyval
  | RayInit bool string pyval pyval
  | NewPolicyManager pyval pyval
  | SetCallbacks pyval pyval
  | GetPolicy pyval
  | GetPolicyMappingFn pyval
  | GetTrainerClass pyval
  | TuneRun run_args
  | RayShutdown

type_synonym 'a outcome = "event list \<times> (error + 'a)"

definition ret :: "'a \<Rightarrow> 'a outcome" where
  "ret x = ([], Inr x)"

definition lift :: "error + 'a \<Rightarrow> 'a outcome" where
  "lift r = ([], r)"

definition call :: "event \<Rightarrow> error + 'a \<Rightarrow> 'a outcome" where
  "call ev r = ([ev], r)"

fun obind :: "'a outcome \<Rightarrow> ('a \<Rightarrow> 'b outcome) \<Rightarrow> 'b outcome" where
  "obind (tr, Inl e) f = (tr, Inl e)"
| "obind (tr, Inr x) f = (case f x of (tr', r) \<Rightarrow> (tr @ tr', r))"

subsection \<open>Lines 82 to 84: the callback of the job array\<close>

text \<open>\<open>'job_array.{}'.format(args.job_array_module)\<close>.\<close>

definition qualified_name :: "string option \<Rightarrow> string" where
  "qualified_name m = ''job_array.'' @ (case m of None \<Rightarrow> ''None'' | Some n \<Rightarrow> n)"

definition getattr :: "pymodule \<Rightarrow> string \<Rightarrow> error + callback" where
  "getattr m n = (case m n of None \<Rightarrow> Inl (AttributeError n) | Some f \<Rightarrow> Inr f)"

definition task_id_value :: "int option \<Rightarrow> pyval" where
  "task_id_value t = (case t of None \<Rightarrow> PNone | Some i \<Rightarrow> PInt i)"

definition callback_step :: "externals \<Rightarrow> args \<Rightarrow> pyval \<Rightarrow> (pyval \<times> pyval) outcome" where
  "callback_step ext a exp =
     obind (call (ImportModule (qualified_name (job_array_module a)))
              (import_module ext (qualified_name (job_array_module a)))) (\<lambda>job_array_mod.
     obind (lift (getattr job_array_mod ''update_exp_by_task_id'')) (\<lambda>update_exp_by_task_id.
     call (UpdateExpByTaskId exp (task_id_value (job_array_task_id a)))
       (update_exp_by_task_id exp (task_id_value (job_array_task_id a)))))"

subsection \<open>Lines 107 to 109: callbacks\<close>

definition callbacks_step :: "externals \<Rightarrow> policy_manager \<Rightarrow> pyval \<Rightarrow> pyval outcome" where
  "callbacks_step ext pm exp =
     obind (lift (ebind (getitem exp ''config'') (\<lambda>cfg. has_key cfg ''callbacks''))) (\<lambda>present.
     if present
     then call (SetCallbacks exp (agent_ids pm)) (set_callbacks ext exp (agent_ids pm))
     else ret exp)"

subsection \<open>Lines 112 to 117: multi-agent setup\<close>

text \<open>
  \<open>for p_id in policy_ids\<close>: a list yields its elements, a dict its keys, a str its
  characters; nothing else that the loader returns is iterable.
\<close>

fun py_iter :: "pyval \<Rightarrow> error + pyval list" where
  "py_iter (PList xs) = Inr xs"
| "py_iter (PDict d) = Inr (map fst d)"
| "py_iter (PStr s) = Inr (map (\<lambda>c. PStr [c]) s)"
| "py_iter _ = Inl TypeError"

fun hashable :: "pyval \<Rightarrow> bool" where
  "hashable (PList xs) = False"
| "hashable (PDict d) = False"
| "hashable _ = True"

text \<open>
  Two hashable values are one key of a dict when Python finds them equal. A bool, an int and
  a float are compared by their numeric value, whatever their types: \<open>1\<close>, \<open>True\<close> and
  \<open>1.0\<close> are one key. A value of any other kind equals only a value of its own kind.
\<close>

fun num_val :: "pyval \<Rightarrow> (int \<times> int) option" where
  "num_val (PBool b) = Some (if b then 1 else 0, 0)"
| "num_val (PInt i) = Some (i, 0)"
| "num_val (PFloat m e) = Some (m, e)"
| "num_val _ = None"

text \<open>\<open>m1 * 2 ^ e1 = m2 * 2 ^ e2\<close>, on the smaller of the two exponents.\<close>

definition num_eq :: "int \<times> int \<Rightarrow> int \<times> int \<Rightarrow> bool" where
  "num_eq x y =
     (case (x, y) of ((m1, e1), (m2, e2)) \<Rightarrow>
        m1 * 2 ^ nat (e1 - min e1 e2) = m2 * 2 ^ nat (e2 - min e1 e2))"

definition py_key_eq :: "pyval \<Rightarrow> pyval \<Rightarrow> bool" where
  "py_key_eq a b =
     (case (num_val a, num_val b) of
        (Some x, Some y) \<Rightarrow> num_eq x y
      | (None, None) \<Rightarrow> a = b
      | _ \<Rightarrow> False)"

text \<open>
  The write into a dict: a key that equals the new one keeps its place and its own key
  object and takes the value; otherwise the item goes to the end.
\<close>

fun dict_put :: "pyval \<Rightarrow> pyval \<Rightarrow> (pyval \<times> pyval) list \<Rightarrow> (pyval \<times> pyval) list" where
  "dict_put k v [] = [(k, v)]"
| "dict_put k v ((k', v') # d) =
     (if py_key_eq k' k then (k', v) # d else (k', v') # dict_put k v d)"

text \<open>\<open>d[k] = v\<close> for a key that is a value of the program.\<close>

fun setitem_val :: "pyval \<Rightarrow> pyval \<Rightarrow> pyval \<Rightarrow> error + pyval" where
  "setitem_val (PDict d) k v =
     (if hashable k then Inr (PDict (dict_put k v d)) else Inl TypeError)"
| "setitem_val _ k v = Inl TypeError"

text \<open>\<open>isinstance(v, str)\<close>.\<close>

fun is_str :: "pyval \<Rightarrow> bool" where
  "is_str (PStr s) = True"
| "is_str _ = False"

definition get_multiagent_item :: "pyval \<Rightarrow> string \<Rightarrow> error + pyval" where
  "get_multiagent_item exp k =
     ebind (getitem exp ''config'') (\<lambda>cfg.
     ebind (getitem cfg ''multiagent'') (\<lambda>ma.
     getitem ma k))"

definition set_multiagent_item :: "pyval \<Rightarrow> string \<Rightarrow> pyval \<Rightarrow> error + pyval" where
  "set_multiagent_item exp k v =
     ebind (getitem exp ''config'') (\<lambda>cfg.
     ebind (getitem cfg ''multiagent'') (\<lambda>ma.
     ebind (setitem ma k v) (\<lambda>ma'.
     ebind (setitem cfg ''multiagent'' ma') (\<lambda>cfg'.
     setitem exp ''config'' cfg'))))"

text \<open>
  One round of the loop: the right-hand side is evaluated first, then the dict is fetched
  and written.
\<close>

definition set_policy :: "pyval \<Rightarrow> pyval \<Rightarrow> pyval \<Rightarrow> error + pyval" where
  "set_policy exp p_id pol =
     ebind (get_multiagent_item exp ''policies'') (\<lambda>ps.
     ebind (setitem_val ps p_id pol) (\<lambda>ps'.
     set_multiagent_item exp ''policies'' ps'))"

fun policy_loop :: "policy_manager \<Rightarrow> pyval list \<Rightarrow> pyval \<Rightarrow> pyval outcome" where
  "policy_loop pm [] exp = ret exp"
| "policy_loop pm (p_id # ids) exp =
     obind (call (GetPolicy p_id) (get_policy pm p_id)) (\<lambda>pol.
     obind (lift (set_policy exp p_id pol)) (\<lambda>exp.
     policy_loop pm ids exp))"

definition multiagent_step :: "policy_manager \<Rightarrow> pyval \<Rightarrow> pyval outcome" where
  "multiagent_step pm exp =
     obind (lift (get_multiagent_item exp ''policies'')) (\<lambda>policy_ids.
     obind (lift (set_multiagent_item exp ''policies'' (PDict []))) (\<lambda>exp.
     obind (lift (py_iter policy_ids)) (\<lambda>ids.
     obind (policy_loop pm ids exp) (\<lambda>exp.
     obind (lift (get_multiagent_item exp ''policy_mapping_fn'')) (\<lambda>fn.
     obind (call (GetPolicyMappingFn fn) (get_policy_mapping_fn pm fn)) (\<lambda>fn'.
     lift (set_multiagent_item exp ''policy_mapping_fn'' fn')))))))"

text \<open>
  The descriptor \<open>d\<close> whose config is \<open>c\<close> with the multiagent dict \<open>m\<close>: the shape
  that every write under \<open>exp['config']['multiagent']\<close> keeps.
\<close>

definition put_multiagent ::
  "(pyval \<times> pyval) list \<Rightarrow> (pyval \<times> pyval) list \<Rightarrow> (pyval \<times> pyval) list \<Rightarrow> pyval" where
  "put_multiagent d c m =
     PDict (AList.update (PStr ''config'')
              (PDict (AList.update (PStr ''multiagent'') (PDict m) c)) d)"

section \<open>The whole of \<open>main\<close>\<close>

text \<open>
  Lines 61 to 79: from the file to the descriptor that the callback receives, with the
  verbosity for the runner.
\<close>

definition configure :: "os_path \<Rightarrow> externals \<Rightarrow> args \<Rightarrow> (pyval \<times> int) outcome" where
  "configure os ext a =
     obind (call (LoadYaml (config_file a)) (load_yaml ext (config_file a))) (\<lambda>experiments.
     obind (lift (select_experiment experiments)) (\<lambda>exp.
     obind (lift (setitem exp ''trial_name_creator'' (PObj ''trial_name_creator''))) (\<lambda>exp.
     obind (lift (normalize_paths os path_keys exp)) (\<lambda>exp.
     obind (lift (verbosity_step a exp)) (\<lambda>(exp, verbose).
     obind (lift (local_mode_step a exp)) (\<lambda>exp.
     ret (exp, verbose)))))))"

text \<open>
  Lines 93 to 106: the registrations, the start of the runtime and the policy manager.
  The descriptor is read, not written.
\<close>

definition startup :: "os_path \<Rightarrow> externals \<Rightarrow> args \<Rightarrow> pyval \<Rightarrow> policy_manager outcome" where
  "startup os ext a exp =
     obind (lift (getitem exp ''env'')) (\<lambda>env.
     obind (call (RegisterCustomEnv env) (register_custom_env ext env)) (\<lambda>env_creator.
     obind (lift (ebind (getitem exp ''config'') (\<lambda>cfg. getitem cfg ''model''))) (\<lambda>model.
     obind (call (RegisterCustomModel model) (register_custom_model ext model)) (\<lambda>_.
     obind (lift (ebind (getitem exp ''ray_resources'') (\<lambda>r. getitem r ''num_cpus''))) (\<lambda>num_cpus.
     obind (lift (ebind (getitem exp ''ray_resources'') (\<lambda>r. getitem r ''num_gpus''))) (\<lambda>num_gpus.
     obind (call (RayInit (local_mode a) (abspath os (expanduser os (temp_dir a))) num_cpus num_gpus)
              (ray_init ext (local_mode a) (abspath os (expanduser os (temp_dir a))) num_cpus num_gpus)) (\<lambda>_.
     obind (lift (getitem exp ''config'')) (\<lambda>cfg.
     call (NewPolicyManager env_creator cfg) (PolicyManager ext env_creator cfg)))))))))"

text \<open>Lines 136 to 155: the trainer, the run and the shutdown of the runtime.\<close>

definition run_experiment :: "externals \<Rightarrow> pyval \<Rightarrow> int \<Rightarrow> pyval \<Rightarrow> pyval outcome" where
  "run_experiment ext exp_name verbose exp =
     obind (lift (getitem exp ''run'')) (\<lambda>run.
     obind (call (GetTrainerClass run) (get_trainer_class ext run)) (\<lambda>trainer.
     obind (lift (assemble_run_args trainer exp_name verbose exp)) (\<lambda>ra.
     obind (call (TuneRun ra) (tune_run ext ra)) (\<lambda>_.
     obind (call RayShutdown (ray_shutdown ext)) (\<lambda>_.
     ret PNone)))))"

text \<open>
  The arguments that lines 136 to 152 hand to the runner, as a function of the three
  variables \<open>exp\<close>, \<open>exp_name\<close> and \<open>verbose\<close> that \<open>main\<close> holds at line 135.
\<close>

definition run_args_of :: "externals \<Rightarrow> pyval \<Rightarrow> int \<Rightarrow> pyval \<Rightarrow> error + run_args" where
  "run_args_of ext exp_name verbose exp =
     ebind (getitem exp ''run'') (\<lambda>run.
     ebind (get_trainer_class ext run) (\<lambda>trainer.
     assemble_run_args trainer exp_name verbose exp))"

text \<open>
  Lines 61 to 133: everything before the trainer is looked up. The result is the three
  variables \<open>exp\<close>, \<open>exp_name\<close> and \<open>verbose\<close> as they stand at line 135.
\<close>

definition prepare :: "os_path \<Rightarrow> externals \<Rightarrow> args \<Rightarrow> (pyval \<times> pyval \<times> int) outcome" where
  "prepare os ext a =
     obind (configure os ext a) (\<lambda>(exp, verbose).
     obind (callback_step ext a exp) (\<lambda>(exp, exp_name).
     obind (call (Print []) (Inr ())) (\<lambda>_.
     obind (call (PPrint exp) (Inr ())) (\<lambda>_.
     obind (call (Print []) (Inr ())) (\<lambda>_.
     obind (startup os ext a exp) (\<lambda>policy_manager.
     obind (callbacks_step ext policy_manager exp) (\<lambda>exp.
     obind (multiagent_step policy_manager exp) (\<lambda>exp.
     obind (lift (grid_step (grid_search ext) exp)) (\<lambda>exp.
     obind (lift (reshape_step exp)) (\<lambda>exp.
     ret (exp, exp_name, verbose)))))))))))"

text \<open>A function that falls off its end returns \<open>None\<close>.\<close>

definition main :: "os_path \<Rightarrow> externals \<Rightarrow> args \<Rightarrow> pyval outcome" where
  "main os ext a =
     obind (prepare os ext a) (\<lambda>(exp, exp_name, verbose).
     run_experiment ext exp_name verbose exp)"

subsection \<open>Reading a trace\<close>

text \<open>
  The two calls of lines 139 to 155. A trace is quiet when it holds neither. Given the
  arguments that the runner is to receive, a run has one of three shapes: it ends in an
  exception with a quiet trace; or the trace is quiet up to the call of the runner with
  these arguments, which is the last call and whose exception is the outcome; or the
  runner, called with these arguments, returns, the shutdown is the next and last call,
  and the outcome is the exception of the shutdown or \<open>None\<close>.
\<close>

fun run_event :: "event \<Rightarrow> bool" where
  "run_event (TuneRun ra) = True"
| "run_event RayShutdown = True"
| "run_event _ = False"

definition quiet :: "event list \<Rightarrow> bool" where
  "quiet tr = (\<forall>ev \<in> set tr. \<not> run_event ev)"

definition run_shape ::
  "externals \<Rightarrow> error + run_args \<Rightarrow> event list \<Rightarrow> error + pyval \<Rightarrow> bool" where
  "run_shape ext args tr r =
     ((quiet tr \<and> (\<exists>e. r = Inl e))
      \<or> (\<exists>pre ra e. quiet pre \<and> tr = pre @ [TuneRun ra] \<and> args = Inr ra
            \<and> tune_run ext ra = Inl e \<and> r = Inl e)
      \<or> (\<exists>pre ra v. quiet pre \<and> tr = pre @ [TuneRun ra, RayShutdown] \<and> args = Inr ra
            \<and> tune_run ext ra = Inr v
            \<and> r = (case ray_shutdown ext of Inl e \<Rightarrow> Inl e | Inr u \<Rightarrow> Inr PNone)))"

section \<open>A sample experiment\<close>

text \<open>
  One descriptor of the kind the experiment files hold, and collaborators that always
  succeed, to run the definitions on.
\<close>

definition demo_multiagent :: "(pyval \<times> pyval) list" where
  "demo_multiagent =
     [(PStr ''policies'', PList [PStr ''ppo'', PStr ''random'']),
      (PStr ''policy_mapping_fn'', PStr ''by_agent''),
      (PStr ''policies_to_train'', PList [PStr ''ppo''])]"

definition demo_config :: "(pyval \<times> pyval) list" where
  "demo_config =
     [(PStr ''lr'', PList [PFloat 1 (- 10), PFloat 1 (- 12)]),
      (PStr ''num_workers'', PInt 4),
      (PStr ''train_batch_size'', PInt 4000),
      (PStr ''gamma'', PList [PInt 1]),
      (PStr ''model'', PDict [(PStr ''custom_model'', PStr ''cnn'')]),
      (PStr ''multiagent'', PDict demo_multiagent)]"

definition demo_items :: "(pyval \<times> pyval) list" where
  "demo_items =
     [(PStr ''run'', PStr ''PPO''),
      (PStr ''env'', PStr ''Vista''),
      (PStr ''local_dir'', PStr ''~/results''),
      (PStr ''stop'', PDict [(PStr ''training_iteration'', PInt 100)]),
      (PStr ''ray_resources'', PDict [(PStr ''num_cpus'', PInt 8), (PStr ''num_gpus'', PInt 0)]),
      (PStr ''num_samples'', PInt 1),
      (PStr ''checkpoint_freq'', PInt 10),
      (PStr ''checkpoint_at_end'', PBool True),
      (PStr ''restore'', PStr ''~/ckpt/7''),
      (PStr ''config'', PDict demo_config)]"

text \<open>The items after line 65 has stored the function that names the trials.\<close>

definition demo_loaded :: "(pyval \<times> pyval) list" where
  "demo_loaded = demo_items @ [(PStr ''trial_name_creator'', PObj ''trial_name_creator'')]"

definition demo_exp :: pyval where
  "demo_exp = PDict demo_items"

definition demo_os :: os_path where
  "demo_os = \<lparr> expanduser = (\<lambda>p. if take 1 p = ''~'' then ''/home/u'' @ drop 1 p else p),
               abspath = (\<lambda>p. if take 1 p = ''/'' then p else ''/work/'' @ p) \<rparr>"

definition demo_pm :: policy_manager where
  "demo_pm = \<lparr> agent_ids = PList [PStr ''agent_0''],
               get_policy = (\<lambda>p. Inr (PList [PObj ''policy'', p])),
               get_policy_mapping_fn = (\<lambda>f. Inr (PObj ''mapping_fn'')) \<rparr>"

definition demo_module :: pymodule where
  "demo_module n =
     (if n = ''update_exp_by_task_id'' then Some (\<lambda>exp task. Inr (exp, PStr ''vista_task''))
      else None)"

definition demo_ext :: externals where
  "demo_ext = \<lparr> load_yaml = (\<lambda>f. Inr (PDict [(PStr ''vista'', demo_exp)])),
                import_module = (\<lambda>n. Inr demo_module),
                register_custom_env = (\<lambda>e. Inr (PObj ''env_creator'')),
                register_custom_model = (\<lambda>m. Inr ()),
                ray_init = (\<lambda>l t c g. Inr ()),
                PolicyManager = (\<lambda>e c. Inr demo_pm),
                set_callbacks = (\<lambda>exp ids. Inr exp),
                grid_search = (\<lambda>v. PDict [(PStr ''grid_search'', v)]),
                get_trainer_class = (\<lambda>r. Inr (PObj ''trainer'')),
                tune_run = (\<lambda>ra. Inr (PObj ''analysis'')),
                ray_shutdown = Inr () \<rparr>"

definition demo_args :: args where
  "demo_args = \<lparr> config_file = Some ''vista.yaml'', temp_dir = ''~/tmp'', flag_v = True,
                 flag_vv = False, local_mode = True, job_array_module = Some ''sweep'',
                 job_array_task_id = Some 3 \<rparr>"

text \<open>The arguments with which the sample run reaches the runner.\<close>

definition demo_run_args :: run_args where
  "demo_run_args =
     \<lparr> run_trainer = PObj ''trainer'', run_name = PStr ''vista_task'',
       run_stop = PDict [(PStr ''training_iteration'', PInt 100)],
       run_config = PDict
         [(PStr ''lr'', PDict [(PStr ''grid_search'', PList [PFloat 1 (- 10), PFloat 1 (- 12)])]),
          (PStr ''num_workers'', PInt 0),
          (PStr ''train_batch_size'', PInt 4000),
          (PStr ''gamma'', PList [PInt 1]),
          (PStr ''model'', PDict [(PStr ''custom_model'', PStr ''cnn'')]),
          (PStr ''multiagent'', PDict
             [(PStr ''policies'', PDict
                 [(PStr ''ppo'', PList [PObj ''policy'', PStr ''ppo'']),
                  (PStr ''random'', PList [PObj ''policy'', PStr ''random''])]),
              (PStr ''policy_mapping_fn'', PObj ''mapping_fn''),
              (PStr ''policies_to_train'', PList [PStr ''ppo''])]),
          (PStr ''log_level'', PStr ''INFO''),
          (PStr ''env'', PStr ''Vista'')],
       run_resources_per_trial = PNone, run_num_samples = PInt 1,
       run_local_dir = PStr ''/home/u/results'',
       run_keep_checkpoints_num = PNone, run_checkpoint_freq = PInt 10,
       run_checkpoint_at_end = PBool True, run_verbose = 2,
       run_trial_name_creator = PObj ''trial_name_creator'',
       run_restore = PStr ''~/ckpt/7'' \<rparr>"

text \<open>The sample descriptor when line 70 has normalized its path-valued fields.\<close>

definition demo_normalized :: pyval where
  "demo_normalized =
     PDict (AList.update (PStr ''local_dir'') (PStr ''/home/u/results'') demo_items)"

text \<open>A descriptor after line 65 that names no checkpoint to restore.\<close>

definition demo_fresh :: "(pyval \<times> pyval) list" where
  "demo_fresh = AList.delete (PStr ''restore'') demo_loaded"

text \<open>The same collaborators with one of them failing.\<close>

definition demo_ext_two :: externals where
  "demo_ext_two = demo_ext
     \<lparr> load_yaml := (\<lambda>f. Inr (PDict [(PStr ''vista'', demo_exp), (PStr ''vista_b'', demo_exp)])) \<rparr>"

definition demo_ext_no_module :: externals where
  "demo_ext_no_module = demo_ext \<lparr> import_module := (\<lambda>n. Inl (Raised ''ModuleNotFoundError'')) \<rparr>"

definition demo_ext_no_function :: externals where
  "demo_ext_no_function = demo_ext \<lparr> import_module := (\<lambda>n. Inr (\<lambda>attr. None)) \<rparr>"

definition demo_ext_run_fails :: externals where
  "demo_ext_run_fails = demo_ext \<lparr> tune_run := (\<lambda>ra. Inl (Raised ''TuneError'')) \<rparr>"

lemmas demo_defs = demo_multiagent_def demo_config_def demo_items_def demo_loaded_def demo_exp_def demo_os_def demo_pm_def
  demo_module_def demo_ext_def demo_args_def

lemmas eval_defs = main_def prepare_def configure_def callback_step_def startup_def
  callbacks_step_def multiagent_step_def run_experiment_def call_def lift_def ret_def
  select_experiment_def path_keys_def get_dict_value_by_str_def set_dict_value_by_str_def
  abs_expanded_def verbosity_step_def local_mode_step_def set_config_item_def
  qualified_name_def getattr_def task_id_value_def get_multiagent_item_def
  set_multiagent_item_def set_policy_def grid_step_def reshape_step_def move_env_def
  default_none_def assemble_run_args_def tune_keys_def

section \<open>Properties\<close>

subsection \<open>Dicts as association lists\<close>

lemma key_present: "k \<in> fst ` set d \<longleftrightarrow> map_of d k \<noteq> None"
  by (simp add: map_of_eq_None_iff)

lemma getitem_dict:
  assumes "getitem exp k = Inr v"
  obtains d where "exp = PDict d" and "map_of d (PStr k) = Some v"
  using assms by (cases exp) (auto split: option.splits)

lemma ebind_InrE:
  assumes "ebind m f = Inr y"
  obtains x where "m = Inr x" and "f x = Inr y"
  using assms by (cases m) auto

subsection \<open>Verbosity and local mode\<close>

text \<open>
  C3. On a descriptor with a config dict, the verbosity step ends in one of three tiers,
  whatever the two flags are: with neither flag the descriptor is returned as it is (a log
  level that is not set stays so) and the verbosity is 1; with \<open>-v\<close> and not \<open>-vv\<close> the
  log level is \<open>'INFO'\<close> and the verbosity is 2; with \<open>-vv\<close> the log level is \<open>'DEBUG'\<close>
  and the verbosity is 3.
\<close>

theorem verbosity_tiers:
  assumes "getitem exp ''config'' = Inr (PDict c)"
  shows "(\<not> flag_v a \<and> \<not> flag_vv a \<longrightarrow> verbosity_step a exp = Inr (exp, 1))
       \<and> (flag_v a \<and> \<not> flag_vv a \<longrightarrow>
            (\<exists>exp'. verbosity_step a exp = Inr (exp', 2)
               \<and> config_entry exp' ''log_level'' = Some (PStr ''INFO'')))
       \<and> (flag_vv a \<longrightarrow>
            (\<exists>exp'. verbosity_step a exp = Inr (exp', 3)
               \<and> config_entry exp' ''log_level'' = Some (PStr ''DEBUG'')))"
  using assms
  by (cases exp) (auto simp: verbosity_step_def set_config_item_def config_entry_def
      update_conv' split: option.splits)

theorem verbosity_tiers_witness:
  "getitem demo_exp ''config'' = Inr (PDict demo_config)
   \<and> config_entry demo_exp ''log_level'' = None
   \<and> verbosity_step (demo_args\<lparr>flag_v := False\<rparr>) demo_exp = Inr (demo_exp, 1)
   \<and> (\<exists>exp'. verbosity_step demo_args demo_exp = Inr (exp', 2)
         \<and> config_entry exp' ''log_level'' = Some (PStr ''INFO''))
   \<and> (\<exists>exp'. verbosity_step (demo_args\<lparr>flag_vv := True\<rparr>) demo_exp = Inr (exp', 3)
         \<and> config_entry exp' ''log_level'' = Some (PStr ''DEBUG''))"
proof -
  have cfg: "getitem demo_exp ''config'' = Inr (PDict demo_config)"
    by (simp add: demo_exp_def demo_items_def)
  have unset: "config_entry demo_exp ''log_level'' = None"
    by (simp add: config_entry_def demo_exp_def demo_items_def demo_config_def)
  show ?thesis
    using cfg unset
      verbosity_tiers [OF cfg, of "demo_args\<lparr>flag_v := False\<rparr>"]
      verbosity_tiers [OF cfg, of demo_args]
      verbosity_tiers [OF cfg, of "demo_args\<lparr>flag_vv := True\<rparr>"]
    by (simp add: demo_args_def)
qed

text \<open>
  C4. With the local-mode flag, on a descriptor with a config dict, the step succeeds and
  leaves \<open>num_workers\<close> at 0 in the config, whatever the config held before.
\<close>

theorem local_mode_zero:
  assumes "getitem exp ''config'' = Inr (PDict c)" and "local_mode a"
  shows "\<exists>exp'. local_mode_step a exp = Inr exp'
          \<and> config_entry exp' ''num_workers'' = Some (PInt 0)"
  using assms
  by (cases exp) (auto simp: local_mode_step_def set_config_item_def config_entry_def
      update_conv' split: option.splits)

theorem local_mode_zero_witness:
  "getitem demo_exp ''config'' = Inr (PDict demo_config)
   \<and> local_mode demo_args
   \<and> config_entry demo_exp ''num_workers'' = Some (PInt 4)
   \<and> (\<exists>exp'. local_mode_step demo_args demo_exp = Inr exp'
         \<and> config_entry exp' ''num_workers'' = Some (PInt 0))"
proof -
  have cfg: "getitem demo_exp ''config'' = Inr (PDict demo_config)"
    by (simp add: demo_exp_def demo_items_def)
  have flag: "local_mode demo_args"
    by (simp add: demo_args_def)
  have before: "config_entry demo_exp ''num_workers'' = Some (PInt 4)"
    by (simp add: config_entry_def demo_exp_def demo_items_def demo_config_def)
  show ?thesis
    using cfg flag before local_mode_zero [OF cfg flag] by simp
qed

subsection \<open>Path-valued fields\<close>

text \<open>
  C7, as the script has it. \<open>path_keys\<close> names one field, \<open>local_dir\<close>. When it holds a
  string, the step succeeds, the field then holds the absolute path of the user-expanded
  string (\<open>expanduser\<close> first, \<open>abspath\<close> on its result), and every other field of the
  descriptor, the \<open>restore\<close> path among them, reads as before.
\<close>

theorem local_dir_normalized:
  assumes "getitem exp ''local_dir'' = Inr (PStr p)"
  shows "\<exists>exp'. normalize_paths os path_keys exp = Inr exp'
          \<and> getitem exp' ''local_dir'' = Inr (PStr (abspath os (expanduser os p)))
          \<and> (\<forall>k. k \<noteq> ''local_dir'' \<longrightarrow> getitem exp' k = getitem exp k)"
proof -
  obtain d where exp: "exp = PDict d" and dir: "map_of d (PStr ''local_dir'') = Some (PStr p)"
    using assms by (rule getitem_dict)
  show ?thesis
    by (simp add: exp dir path_keys_def get_dict_value_by_str_def set_dict_value_by_str_def
        abs_expanded_def update_conv')
qed

theorem local_dir_normalized_witness:
  "getitem demo_exp ''local_dir'' = Inr (PStr ''~/results'')
   \<and> (\<exists>exp'. normalize_paths demo_os path_keys demo_exp = Inr exp'
         \<and> getitem exp' ''local_dir'' = Inr (PStr ''/home/u/results'')
         \<and> getitem exp' ''run'' = getitem demo_exp ''run'')"
proof -
  have dir: "getitem demo_exp ''local_dir'' = Inr (PStr ''~/results'')"
    by (simp add: demo_exp_def demo_items_def)
  have os: "abspath demo_os (expanduser demo_os ''~/results'') = ''/home/u/results''"
    by (simp add: demo_os_def)
  show ?thesis
    using dir local_dir_normalized [OF dir, of demo_os] by (auto simp: os)
qed

text \<open>
  C7 as stated has every path-valued field rewritten. The \<open>restore\<close> path of the
  descriptor is not in \<open>path_keys\<close>: written with a tilde in the file, it is the same
  after the step, and the runner receives it so.
\<close>

theorem restore_path_not_normalized:
  "getitem demo_exp ''restore'' = Inr (PStr ''~/ckpt/7'')
   \<and> normalize_paths demo_os path_keys demo_exp = Inr demo_normalized
   \<and> getitem demo_normalized ''restore'' = Inr (PStr ''~/ckpt/7'')
   \<and> abspath demo_os (expanduser demo_os ''~/ckpt/7'') = ''/home/u/ckpt/7''
   \<and> TuneRun demo_run_args \<in> set (fst (main demo_os demo_ext demo_args))
   \<and> run_restore demo_run_args = PStr ''~/ckpt/7''"
  by code_simp

subsection \<open>Grid search\<close>

lemma grid_loop_keys:
  assumes "fst ` set items \<subseteq> fst ` set cfg"
  shows "map fst (grid_loop g items cfg) = map fst cfg"
  using assms
proof (induction g items cfg rule: grid_loop.induct)
  case (1 g cfg)
  show ?case by simp
next
  case (2 g k v items cfg)
  let ?cfg = "if in_tune_keys k \<and> is_list v then AList.update k (g v) cfg else cfg"
  have keys: "map fst ?cfg = map fst cfg"
    using "2.prems" by (simp add: update_keys)
  then have "fst ` set items \<subseteq> fst ` set ?cfg"
    using "2.prems" by (metis (no_types, lifting) insert_subset list.set_map list.simps(15) image_insert)
  from "2.IH" [OF this] keys show ?case by simp
qed

lemma grid_loop_lookup:
  assumes "distinct (map fst items)"
  shows "map_of (grid_loop g items cfg) k =
     (case map_of items k of
        None \<Rightarrow> map_of cfg k
      | Some v \<Rightarrow> if in_tune_keys k \<and> is_list v then Some (g v) else map_of cfg k)"
  using assms
proof (induction g items cfg rule: grid_loop.induct)
  case (1 g cfg)
  show ?case by simp
next
  case (2 g k' v items cfg)
  then have notin: "map_of items k' = None" and dist: "distinct (map fst items)"
    by (simp_all add: map_of_eq_None_iff)
  show ?case
    using notin by (auto simp: "2.IH" [OF dist] update_conv' split: option.splits)
qed

text \<open>
  C2. On a descriptor whose config is a dict (its keys distinct, as in any dict), the step
  succeeds and keeps the keys of the config and their order. Under every key of the
  allow-list whose value is a list, the config then holds \<open>grid_search\<close> of exactly that
  list; every entry whose key is not in the allow-list, or whose value is not a list, holds
  the value it had.
\<close>

theorem grid_search_wraps:
  assumes "getitem exp ''config'' = Inr (PDict c)" and "distinct (map fst c)"
  shows "\<exists>exp' c'. grid_step g exp = Inr exp' \<and> getitem exp' ''config'' = Inr (PDict c')
          \<and> map fst c' = map fst c
          \<and> (\<forall>k \<in> set tune_keys. \<forall>xs. map_of c (PStr k) = Some (PList xs)
                \<longrightarrow> map_of c' (PStr k) = Some (g (PList xs)))
          \<and> (\<forall>k v. map_of c k = Some v \<and> (k \<notin> PStr ` set tune_keys \<or> \<not> is_list v)
                \<longrightarrow> map_of c' k = Some v)"
proof -
  obtain d where exp: "exp = PDict d" and cfg: "map_of d (PStr ''config'') = Some (PDict c)"
    using assms(1) by (rule getitem_dict)
  let ?c' = "grid_loop g c c"
  have step: "grid_step g exp = Inr (PDict (AList.update (PStr ''config'') (PDict ?c') d))"
    by (simp add: grid_step_def exp cfg)
  have keys: "map fst ?c' = map fst c"
    by (rule grid_loop_keys) simp
  have listed: "map_of ?c' (PStr k) = Some (g (PList xs))"
    if "k \<in> set tune_keys" and "map_of c (PStr k) = Some (PList xs)" for k xs
    using that by (simp add: grid_loop_lookup [OF assms(2)])
  have other: "map_of ?c' k = Some v"
    if "map_of c k = Some v" and "k \<notin> PStr ` set tune_keys \<or> \<not> is_list v" for k v
    using that by (cases k) (auto simp: grid_loop_lookup [OF assms(2)])
  show ?thesis
    using step keys listed other by (auto simp: update_conv')
qed

theorem grid_search_wraps_witness:
  "getitem demo_exp ''config'' = Inr (PDict demo_config)
   \<and> distinct (map fst demo_config)
   \<and> ''lr'' \<in> set tune_keys
   \<and> map_of demo_config (PStr ''lr'') = Some (PList [PFloat 1 (- 10), PFloat 1 (- 12)])
   \<and> map_of demo_config (PStr ''gamma'') = Some (PList [PInt 1])
   \<and> map_of demo_config (PStr ''train_batch_size'') = Some (PInt 4000)
   \<and> (\<exists>exp' c'. grid_step (grid_search demo_ext) demo_exp = Inr exp'
         \<and> getitem exp' ''config'' = Inr (PDict c')
         \<and> map_of c' (PStr ''lr'') =
             Some (grid_search demo_ext (PList [PFloat 1 (- 10), PFloat 1 (- 12)]))
         \<and> map_of c' (PStr ''gamma'') = Some (PList [PInt 1])
         \<and> map_of c' (PStr ''train_batch_size'') = Some (PInt 4000))"
proof -
  have cfg: "getitem demo_exp ''config'' = Inr (PDict demo_config)"
    by (simp add: demo_exp_def demo_items_def)
  have dist: "distinct (map fst demo_config)"
    by (simp add: demo_config_def)
  have listed: "''lr'' \<in> set tune_keys"
    and other: "PStr ''gamma'' \<notin> PStr ` set tune_keys"
    by (simp_all add: tune_keys_def)
  have given: "map_of demo_config (PStr ''lr'') = Some (PList [PFloat 1 (- 10), PFloat 1 (- 12)])"
    "map_of demo_config (PStr ''gamma'') = Some (PList [PInt 1])"
    "map_of demo_config (PStr ''train_batch_size'') = Some (PInt 4000)"
    by (simp_all add: demo_config_def)
  from grid_search_wraps [OF cfg dist, of "grid_search demo_ext"]
  obtain exp' c' where "grid_step (grid_search demo_ext) demo_exp = Inr exp'"
    and "getitem exp' ''config'' = Inr (PDict c')"
    and a: "\<forall>k \<in> set tune_keys. \<forall>xs. map_of demo_config (PStr k) = Some (PList xs)
                \<longrightarrow> map_of c' (PStr k) = Some (grid_search demo_ext (PList xs))"
    and b: "\<forall>k v. map_of demo_config k = Some v \<and> (k \<notin> PStr ` set tune_keys \<or> \<not> is_list v)
                \<longrightarrow> map_of c' k = Some v"
    by blast
  moreover from a listed given(1)
  have "map_of c' (PStr ''lr'') = Some (grid_search demo_ext (PList [PFloat 1 (- 10), PFloat 1 (- 12)]))"
    by blast
  moreover from b other given(2) have "map_of c' (PStr ''gamma'') = Some (PList [PInt 1])"
    by blast
  moreover from b given(3) have "map_of c' (PStr ''train_batch_size'') = Some (PInt 4000)"
    by (metis is_list.simps(4))
  ultimately show ?thesis
    using cfg dist listed given by blast
qed

subsection \<open>The shape the runner expects\<close>

lemma move_env_ok:
  assumes "map_of d (PStr ''env'') = Some env" and "map_of d (PStr ''config'') = Some (PDict c)"
  shows "move_env (PDict d) =
     Inr (PDict (AList.delete (PStr ''env'')
            (AList.update (PStr ''config'') (PDict (AList.update (PStr ''env'') env c)) d)))"
  using assms
  by (simp add: move_env_def set_config_item_def key_present update_conv')

lemma default_none_ok:
  "default_none k (PDict d) =
     Inr (PDict (AList.update (PStr k) (case map_of d (PStr k) of None \<Rightarrow> PNone | Some v \<Rightarrow> v) d))"
  by (simp add: default_none_def key_present split: option.splits)

lemma reshape_step_dict:
  assumes "reshape_step (PDict d) = Inr exp'"
  obtains env c where "map_of d (PStr ''env'') = Some env"
    and "map_of d (PStr ''config'') = Some (PDict c)"
proof -
  from assms obtain e1 where m: "move_env (PDict d) = Inr e1"
    by (cases "move_env (PDict d)") (auto simp: reshape_step_def)
  then obtain env where env: "map_of d (PStr ''env'') = Some env"
    by (cases "map_of d (PStr ''env'')") (auto simp: move_env_def)
  from m env obtain cv where cv: "map_of d (PStr ''config'') = Some cv"
    by (cases "map_of d (PStr ''config'')") (auto simp: move_env_def set_config_item_def)
  from m env cv obtain c where "cv = PDict c"
    by (cases cv) (auto simp: move_env_def set_config_item_def)
  with env cv that show thesis by blast
qed

text \<open>
  C5. On a descriptor with a top-level \<open>env\<close> and a config dict, the reshaping succeeds;
  afterwards the config holds the former top-level value under \<open>env\<close>, and the descriptor
  has no top-level key \<open>env\<close>.
\<close>

theorem reshape_moves_env:
  assumes "getitem exp ''env'' = Inr env" and "getitem exp ''config'' = Inr (PDict c)"
  shows "\<exists>exp'. reshape_step exp = Inr exp'
          \<and> config_entry exp' ''env'' = Some env
          \<and> has_key exp' ''env'' = Inr False"
proof -
  obtain d where exp: "exp = PDict d" and env: "map_of d (PStr ''env'') = Some env"
    using assms(1) by (rule getitem_dict)
  have cfg: "map_of d (PStr ''config'') = Some (PDict c)"
    using assms(2) by (auto simp: exp split: option.splits)
  show ?thesis
    by (simp add: exp reshape_step_def move_env_ok [OF env cfg] default_none_ok
        config_entry_def update_conv' delete_conv' key_present)
qed

theorem reshape_moves_env_witness:
  "getitem demo_exp ''env'' = Inr (PStr ''Vista'')
   \<and> getitem demo_exp ''config'' = Inr (PDict demo_config)
   \<and> (\<exists>exp'. reshape_step demo_exp = Inr exp'
         \<and> config_entry exp' ''env'' = Some (PStr ''Vista'')
         \<and> has_key exp' ''env'' = Inr False)"
proof -
  have env: "getitem demo_exp ''env'' = Inr (PStr ''Vista'')"
    by (simp add: demo_exp_def demo_items_def)
  have cfg: "getitem demo_exp ''config'' = Inr (PDict demo_config)"
    by (simp add: demo_exp_def demo_items_def)
  show ?thesis
    using env cfg reshape_moves_env [OF env cfg] by simp
qed

text \<open>
  C6. After a reshaping that succeeded, each of \<open>restore\<close>, \<open>keep_checkpoints_num\<close> and
  \<open>resources_per_trial\<close> is a key of the descriptor: it holds \<open>None\<close> if the descriptor
  had no such key and the value it had otherwise. Whatever arguments are then assembled
  for the runner carry these same values.
\<close>

theorem optional_keys:
  assumes "reshape_step (PDict d) = Inr exp'"
  shows "getitem exp' ''restore'' = Inr (or_none (map_of d (PStr ''restore'')))
       \<and> getitem exp' ''keep_checkpoints_num'' = Inr (or_none (map_of d (PStr ''keep_checkpoints_num'')))
       \<and> getitem exp' ''resources_per_trial'' = Inr (or_none (map_of d (PStr ''resources_per_trial'')))
       \<and> (\<forall>trainer exp_name verbose ra.
             assemble_run_args trainer exp_name verbose exp' = Inr ra \<longrightarrow>
               run_restore ra = or_none (map_of d (PStr ''restore''))
               \<and> run_keep_checkpoints_num ra = or_none (map_of d (PStr ''keep_checkpoints_num''))
               \<and> run_resources_per_trial ra = or_none (map_of d (PStr ''resources_per_trial'')))"
proof -
  obtain env c where env: "map_of d (PStr ''env'') = Some env"
    and cfg: "map_of d (PStr ''config'') = Some (PDict c)"
    using assms(1) by (rule reshape_step_dict)
  have exp': "exp' = PDict
      (AList.update (PStr ''resources_per_trial'') (or_none (map_of d (PStr ''resources_per_trial'')))
      (AList.update (PStr ''keep_checkpoints_num'') (or_none (map_of d (PStr ''keep_checkpoints_num'')))
      (AList.update (PStr ''restore'') (or_none (map_of d (PStr ''restore'')))
      (AList.delete (PStr ''env'')
        (AList.update (PStr ''config'') (PDict (AList.update (PStr ''env'') env c)) d)))))"
    using assms(1)
    by (simp add: reshape_step_def move_env_ok [OF env cfg] default_none_ok
        update_conv' delete_conv' or_none_def)
  have items: "getitem exp' ''restore'' = Inr (or_none (map_of d (PStr ''restore'')))"
    "getitem exp' ''keep_checkpoints_num'' = Inr (or_none (map_of d (PStr ''keep_checkpoints_num'')))"
    "getitem exp' ''resources_per_trial'' = Inr (or_none (map_of d (PStr ''resources_per_trial'')))"
    by (simp_all add: exp' update_conv')
  have "run_restore ra = or_none (map_of d (PStr ''restore''))
      \<and> run_keep_checkpoints_num ra = or_none (map_of d (PStr ''keep_checkpoints_num''))
      \<and> run_resources_per_trial ra = or_none (map_of d (PStr ''resources_per_trial''))"
    if "assemble_run_args trainer exp_name verbose exp' = Inr ra" for trainer exp_name verbose ra
    using that unfolding assemble_run_args_def items
    by (auto elim!: ebind_InrE)
  with items show ?thesis by blast
qed

theorem optional_keys_witness:
  "map_of demo_fresh (PStr ''restore'') = None
   \<and> map_of demo_fresh (PStr ''keep_checkpoints_num'') = None
   \<and> map_of demo_fresh (PStr ''resources_per_trial'') = None
   \<and> (\<exists>exp' ra. reshape_step (PDict demo_fresh) = Inr exp'
         \<and> getitem exp' ''restore'' = Inr PNone
         \<and> getitem exp' ''keep_checkpoints_num'' = Inr PNone
         \<and> getitem exp' ''resources_per_trial'' = Inr PNone
         \<and> assemble_run_args (PObj ''trainer'') (PStr ''vista_task'') 2 exp' = Inr ra
         \<and> run_restore ra = PNone
         \<and> run_keep_checkpoints_num ra = PNone
         \<and> run_resources_per_trial ra = PNone)
   \<and> map_of demo_loaded (PStr ''restore'') = Some (PStr ''~/ckpt/7'')
   \<and> (\<exists>exp' ra. reshape_step (PDict demo_loaded) = Inr exp'
         \<and> getitem exp' ''restore'' = Inr (PStr ''~/ckpt/7'')
         \<and> assemble_run_args (PObj ''trainer'') (PStr ''vista_task'') 2 exp' = Inr ra
         \<and> run_restore ra = PStr ''~/ckpt/7'')"
proof -
  have absent: "map_of demo_fresh (PStr ''restore'') = None"
      "map_of demo_fresh (PStr ''keep_checkpoints_num'') = None"
      "map_of demo_fresh (PStr ''resources_per_trial'') = None"
    and present: "map_of demo_loaded (PStr ''restore'') = Some (PStr ''~/ckpt/7'')"
    by (simp_all add: demo_fresh_def demo_loaded_def demo_items_def)
  have "\<exists>exp' ra. reshape_step (PDict demo_fresh) = Inr exp'
     \<and> assemble_run_args (PObj ''trainer'') (PStr ''vista_task'') 2 exp' = Inr ra"
    by (simp add: demo_fresh_def demo_loaded_def demo_items_def reshape_step_def move_env_def
        set_config_item_def default_none_def assemble_run_args_def)
  then obtain exp1 ra1 where r1: "reshape_step (PDict demo_fresh) = Inr exp1"
    and a1: "assemble_run_args (PObj ''trainer'') (PStr ''vista_task'') 2 exp1 = Inr ra1"
    by (elim exE conjE)
  have "\<exists>exp' ra. reshape_step (PDict demo_loaded) = Inr exp'
     \<and> assemble_run_args (PObj ''trainer'') (PStr ''vista_task'') 2 exp' = Inr ra"
    by (simp add: demo_loaded_def demo_items_def reshape_step_def move_env_def
        set_config_item_def default_none_def assemble_run_args_def)
  then obtain exp2 ra2 where r2: "reshape_step (PDict demo_loaded) = Inr exp2"
    and a2: "assemble_run_args (PObj ''trainer'') (PStr ''vista_task'') 2 exp2 = Inr ra2"
    by (elim exE conjE)
  have fresh: "getitem exp1 ''restore'' = Inr PNone"
      "getitem exp1 ''keep_checkpoints_num'' = Inr PNone"
      "getitem exp1 ''resources_per_trial'' = Inr PNone"
      "run_restore ra1 = PNone" "run_keep_checkpoints_num ra1 = PNone"
      "run_resources_per_trial ra1 = PNone"
    using optional_keys [OF r1] a1 by (simp_all add: absent or_none_def)
  have loaded: "getitem exp2 ''restore'' = Inr (PStr ''~/ckpt/7'')"
      "run_restore ra2 = PStr ''~/ckpt/7''"
    using optional_keys [OF r2] a2 by (simp_all add: present or_none_def)
  have first: "\<exists>exp' ra. reshape_step (PDict demo_fresh) = Inr exp'
         \<and> getitem exp' ''restore'' = Inr PNone
         \<and> getitem exp' ''keep_checkpoints_num'' = Inr PNone
         \<and> getitem exp' ''resources_per_trial'' = Inr PNone
         \<and> assemble_run_args (PObj ''trainer'') (PStr ''vista_task'') 2 exp' = Inr ra
         \<and> run_restore ra = PNone
         \<and> run_keep_checkpoints_num ra = PNone
         \<and> run_resources_per_trial ra = PNone"
    by (intro exI [of _ exp1] exI [of _ ra1] conjI) (fact r1 a1 fresh)+
  have second: "\<exists>exp' ra. reshape_step (PDict demo_loaded) = Inr exp'
         \<and> getitem exp' ''restore'' = Inr (PStr ''~/ckpt/7'')
         \<and> assemble_run_args (PObj ''trainer'') (PStr ''vista_task'') 2 exp' = Inr ra
         \<and> run_restore ra = PStr ''~/ckpt/7''"
    by (intro exI [of _ exp2] exI [of _ ra2] conjI) (fact r2 a2 loaded)+
  show ?thesis
    by (intro conjI) (fact absent present first second)+
qed

subsection \<open>Multi-agent setup\<close>

lemma get_put_multiagent:
  "get_multiagent_item (put_multiagent d c m) k =
     (case map_of m (PStr k) of None \<Rightarrow> Inl (KeyError (PStr k)) | Some v \<Rightarrow> Inr v)"
  by (simp add: get_multiagent_item_def put_multiagent_def update_conv')

lemma set_put_multiagent:
  "set_multiagent_item (put_multiagent d c m) k v =
     Inr (put_multiagent d c (AList.update (PStr k) v m))"
  by (simp add: set_multiagent_item_def put_multiagent_def update_conv')

lemma multiagent_shape:
  assumes "get_multiagent_item exp k = Inr v"
  obtains d c m where "exp = put_multiagent d c m" and "map_of m (PStr k) = Some v"
proof -
  from assms obtain cfg where 1: "getitem exp ''config'' = Inr cfg"
    and 2: "ebind (getitem cfg ''multiagent'') (\<lambda>ma. getitem ma k) = Inr v"
    unfolding get_multiagent_item_def by (rule ebind_InrE)
  from 2 obtain ma where 3: "getitem cfg ''multiagent'' = Inr ma" and 4: "getitem ma k = Inr v"
    by (rule ebind_InrE)
  from 4 obtain m where ma: "ma = PDict m" and v: "map_of m (PStr k) = Some v"
    by (rule getitem_dict)
  from 3 obtain c where cfg: "cfg = PDict c" and c: "map_of c (PStr ''multiagent'') = Some ma"
    by (rule getitem_dict)
  from 1 obtain d where exp: "exp = PDict d" and d: "map_of d (PStr ''config'') = Some cfg"
    by (rule getitem_dict)
  have "exp = put_multiagent d c m"
    using c d by (simp add: exp cfg ma put_multiagent_def update_triv)
  with v that show thesis by blast
qed

lemma py_key_eq_str: "py_key_eq k (PStr s) \<longleftrightarrow> k = PStr s"
  by (cases k) (simp_all add: py_key_eq_def)

lemma dict_put_str: "dict_put (PStr s) v d = AList.update (PStr s) v d"
  by (induction d) (auto simp: py_key_eq_str)

lemma set_policy_put:
  assumes "is_str p"
  shows "set_policy (put_multiagent d c (AList.update (PStr ''policies'') (PDict ps) m)) p v =
     Inr (put_multiagent d c (AList.update (PStr ''policies'') (PDict (AList.update p v ps)) m))"
proof -
  obtain s where "p = PStr s"
    using assms by (cases p) simp_all
  then show ?thesis
    by (simp add: set_policy_def get_put_multiagent set_put_multiagent update_conv'
        dict_put_str)
qed

lemma policy_loop_put:
  assumes "\<forall>p \<in> set ids. is_str p \<and> get_policy pm p = Inr (res p)"
  shows "policy_loop pm ids (put_multiagent d c (AList.update (PStr ''policies'') (PDict ps) m)) =
     (map GetPolicy ids,
      Inr (put_multiagent d c (AList.update (PStr ''policies'')
             (PDict (fold (\<lambda>p. AList.update p (res p)) ids ps)) m)))"
  using assms
proof (induction ids arbitrary: ps)
  case Nil
  show ?case by (simp add: ret_def)
next
  case (Cons p ids)
  then have p: "is_str p" "get_policy pm p = Inr (res p)"
    and rest: "\<forall>p \<in> set ids. is_str p \<and> get_policy pm p = Inr (res p)"
    by simp_all
  show ?case
    by (simp add: p(2) call_def lift_def set_policy_put [OF p(1)] Cons.IH [OF rest])
qed

lemma fold_update_keys:
  "fst ` set (fold (\<lambda>p. AList.update p (res p)) ids ps) = set ids \<union> fst ` set ps"
  by (induction ids arbitrary: ps) (auto simp: dom_update)

lemma fold_update_lookup:
  "map_of (fold (\<lambda>p. AList.update p (res p)) ids ps) p =
     (if p \<in> set ids then Some (res p) else map_of ps p)"
  by (induction ids arbitrary: ps) (auto simp: update_conv')

text \<open>
  C10. Let the descriptor hold policy ids under \<open>config.multiagent.policies\<close> (the
  elements of a list, the keys of a dict), all of them strings, and a value under
  \<open>policy_mapping_fn\<close>, and let the policy manager resolve each id and that value. Then
  the step succeeds; afterwards \<open>policies\<close> is a dict whose keys are exactly those ids,
  each with the manager's policy for it, \<open>policy_mapping_fn\<close> is the manager's resolution
  of its former value, and every other key of the multiagent dict reads as before.
\<close>

theorem multiagent_policies:
  assumes "get_multiagent_item exp ''policies'' = Inr policy_ids"
    and "py_iter policy_ids = Inr ids"
    and "\<forall>p \<in> set ids. is_str p \<and> get_policy pm p = Inr (res p)"
    and "get_multiagent_item exp ''policy_mapping_fn'' = Inr fn"
    and "get_policy_mapping_fn pm fn = Inr fn'"
  shows "\<exists>tr exp' ps. multiagent_step pm exp = (tr, Inr exp')
          \<and> get_multiagent_item exp' ''policies'' = Inr (PDict ps)
          \<and> fst ` set ps = set ids
          \<and> (\<forall>p \<in> set ids. map_of ps p = Some (res p))
          \<and> get_multiagent_item exp' ''policy_mapping_fn'' = Inr fn'
          \<and> (\<forall>k. k \<noteq> ''policies'' \<and> k \<noteq> ''policy_mapping_fn''
                \<longrightarrow> get_multiagent_item exp' k = get_multiagent_item exp k)"
proof -
  obtain d c m where exp: "exp = put_multiagent d c m"
    and ids: "map_of m (PStr ''policies'') = Some policy_ids"
    using assms(1) by (rule multiagent_shape)
  have fn: "map_of m (PStr ''policy_mapping_fn'') = Some fn"
    using assms(4) by (auto simp: exp get_put_multiagent split: option.splits)
  let ?ps = "fold (\<lambda>p. AList.update p (res p)) ids []"
  let ?m = "AList.update (PStr ''policy_mapping_fn'') fn'
              (AList.update (PStr ''policies'') (PDict ?ps) m)"
  have step: "multiagent_step pm exp =
      (map GetPolicy ids @ [GetPolicyMappingFn fn], Inr (put_multiagent d c ?m))"
    by (simp add: multiagent_step_def exp lift_def call_def get_put_multiagent
        set_put_multiagent ids fn assms(2,5) policy_loop_put [OF assms(3)] update_conv')
  have "get_multiagent_item (put_multiagent d c ?m) ''policies'' = Inr (PDict ?ps)"
    by (simp add: get_put_multiagent update_conv')
  moreover have "fst ` set ?ps = set ids"
    by (simp add: fold_update_keys)
  moreover have "\<forall>p \<in> set ids. map_of ?ps p = Some (res p)"
    by (simp add: fold_update_lookup)
  moreover have "get_multiagent_item (put_multiagent d c ?m) ''policy_mapping_fn'' = Inr fn'"
    by (simp add: get_put_multiagent update_conv')
  moreover have "\<forall>k. k \<noteq> ''policies'' \<and> k \<noteq> ''policy_mapping_fn''
      \<longrightarrow> get_multiagent_item (put_multiagent d c ?m) k = get_multiagent_item exp k"
    by (simp add: exp get_put_multiagent update_conv')
  ultimately show ?thesis
    using step by blast
qed

theorem multiagent_policies_witness:
  "get_multiagent_item demo_exp ''policies'' = Inr (PList [PStr ''ppo'', PStr ''random''])
   \<and> get_multiagent_item demo_exp ''policy_mapping_fn'' = Inr (PStr ''by_agent'')
   \<and> (\<exists>tr exp' ps. multiagent_step demo_pm demo_exp = (tr, Inr exp')
         \<and> get_multiagent_item exp' ''policies'' = Inr (PDict ps)
         \<and> fst ` set ps = {PStr ''ppo'', PStr ''random''}
         \<and> map_of ps (PStr ''ppo'') = Some (PList [PObj ''policy'', PStr ''ppo''])
         \<and> map_of ps (PStr ''random'') = Some (PList [PObj ''policy'', PStr ''random''])
         \<and> get_multiagent_item exp' ''policy_mapping_fn'' = Inr (PObj ''mapping_fn'')
         \<and> get_multiagent_item exp' ''policies_to_train'' = Inr (PList [PStr ''ppo'']))"
proof -
  have ids: "get_multiagent_item demo_exp ''policies'' = Inr (PList [PStr ''ppo'', PStr ''random''])"
    and fn: "get_multiagent_item demo_exp ''policy_mapping_fn'' = Inr (PStr ''by_agent'')"
    and other: "get_multiagent_item demo_exp ''policies_to_train'' = Inr (PList [PStr ''ppo''])"
    by (simp_all add: get_multiagent_item_def demo_exp_def demo_items_def demo_config_def
        demo_multiagent_def)
  have iter: "py_iter (PList [PStr ''ppo'', PStr ''random'']) = Inr [PStr ''ppo'', PStr ''random'']"
    by simp
  have res: "\<forall>p \<in> set [PStr ''ppo'', PStr ''random''].
      is_str p \<and> get_policy demo_pm p = Inr (PList [PObj ''policy'', p])"
    by (simp add: demo_pm_def)
  have fn': "get_policy_mapping_fn demo_pm (PStr ''by_agent'') = Inr (PObj ''mapping_fn'')"
    by (simp add: demo_pm_def)
  from multiagent_policies [OF ids iter res fn fn']
  obtain tr exp' ps where step: "multiagent_step demo_pm demo_exp = (tr, Inr exp')"
    and pols: "get_multiagent_item exp' ''policies'' = Inr (PDict ps)"
    and keys: "fst ` set ps = set [PStr ''ppo'', PStr ''random'']"
    and vals: "\<forall>p \<in> set [PStr ''ppo'', PStr ''random'']. map_of ps p = Some (PList [PObj ''policy'', p])"
    and mapping: "get_multiagent_item exp' ''policy_mapping_fn'' = Inr (PObj ''mapping_fn'')"
    and rest: "\<forall>k. k \<noteq> ''policies'' \<and> k \<noteq> ''policy_mapping_fn''
          \<longrightarrow> get_multiagent_item exp' k = get_multiagent_item demo_exp k"
    by (elim exE conjE)
  have keys': "fst ` set ps = {PStr ''ppo'', PStr ''random''}"
    using keys by simp
  have ppo: "map_of ps (PStr ''ppo'') = Some (PList [PObj ''policy'', PStr ''ppo''])"
    and random: "map_of ps (PStr ''random'') = Some (PList [PObj ''policy'', PStr ''random''])"
    using vals by simp_all
  have neq: "''policies_to_train'' \<noteq> ''policies''"
    "''policies_to_train'' \<noteq> ''policy_mapping_fn''"
    by simp_all
  have "get_multiagent_item exp' ''policies_to_train'' =
      get_multiagent_item demo_exp ''policies_to_train''"
    by (rule rest [rule_format, OF conjI [OF neq]])
  with other have train: "get_multiagent_item exp' ''policies_to_train'' = Inr (PList [PStr ''ppo''])"
    by simp
  show ?thesis
    by (intro conjI exI [of _ tr] exI [of _ exp'] exI [of _ ps])
      (fact ids fn step pols keys' ppo random mapping train)+
qed

subsection \<open>The single experiment\<close>

text \<open>
  C1. When the loaded file is a mapping, the selection of the experiment succeeds exactly
  when the mapping has one top-level name; with none or several, \<open>main\<close> ends in the
  failed assertion right after the call of the loader, with no other call made.
\<close>

theorem one_experiment_only:
  assumes "load_yaml ext (config_file a) = Inr (PDict es)"
  shows "(length es \<noteq> 1 \<longrightarrow>
            main os ext a = ([LoadYaml (config_file a)], Inl AssertionError))
       \<and> ((\<exists>exp. select_experiment (PDict es) = Inr exp) \<longleftrightarrow> length es = 1)"
proof -
  have "main os ext a = ([LoadYaml (config_file a)], Inl AssertionError)" if "length es \<noteq> 1"
    using that
    by (simp add: main_def prepare_def configure_def call_def lift_def assms
        select_experiment_def)
  moreover have "(\<exists>exp. select_experiment (PDict es) = Inr exp) \<longleftrightarrow> length es = 1"
  proof (cases "length es = 1")
    case True
    then obtain k v where "es = [(k, v)]"
      by (cases es) auto
    then show ?thesis by (simp add: select_experiment_def)
  next
    case False
    then show ?thesis by (simp add: select_experiment_def)
  qed
  ultimately show ?thesis by blast
qed

theorem one_experiment_only_witness:
  "load_yaml demo_ext_two (config_file demo_args) =
     Inr (PDict [(PStr ''vista'', demo_exp), (PStr ''vista_b'', demo_exp)])
   \<and> main demo_os demo_ext_two demo_args = ([LoadYaml (Some ''vista.yaml'')], Inl AssertionError)
   \<and> select_experiment (PDict [(PStr ''vista'', demo_exp)]) = Inr demo_exp"
proof -
  have two: "load_yaml demo_ext_two (config_file demo_args) =
     Inr (PDict [(PStr ''vista'', demo_exp), (PStr ''vista_b'', demo_exp)])"
    by (simp add: demo_ext_two_def)
  have one: "load_yaml demo_ext (config_file demo_args) = Inr (PDict [(PStr ''vista'', demo_exp)])"
    by (simp add: demo_ext_def)
  have path: "config_file demo_args = Some ''vista.yaml''"
    by (simp add: demo_args_def)
  show ?thesis
    using two one_experiment_only [OF two, of demo_os] one_experiment_only [OF one, of demo_os]
    by (simp add: path select_experiment_def)
qed

subsection \<open>The callback of the job array\<close>

text \<open>
  C8. Once the configuration up to line 79 has succeeded: if the import of the job-array
  module raises, that exception is the outcome of \<open>main\<close>; if the module has no
  \<open>update_exp_by_task_id\<close>, the outcome is the \<open>AttributeError\<close>. In both cases the one
  import is the last call that \<open>main\<close> makes.
\<close>

theorem missing_callback_is_fatal:
  assumes "configure os ext a = (tr, Inr (exp, verbose))"
  shows "(\<forall>e. import_module ext (qualified_name (job_array_module a)) = Inl e \<longrightarrow>
            main os ext a = (tr @ [ImportModule (qualified_name (job_array_module a))], Inl e))
       \<and> (\<forall>m. import_module ext (qualified_name (job_array_module a)) = Inr m
               \<and> m ''update_exp_by_task_id'' = None \<longrightarrow>
            main os ext a = (tr @ [ImportModule (qualified_name (job_array_module a))],
                             Inl (AttributeError ''update_exp_by_task_id'')))"
  by (simp add: main_def prepare_def assms callback_step_def call_def lift_def getattr_def)

theorem missing_callback_is_fatal_witness:
  "(\<exists>exp. configure demo_os demo_ext_no_module demo_args
            = ([LoadYaml (Some ''vista.yaml'')], Inr (exp, 2)))
   \<and> import_module demo_ext_no_module ''job_array.sweep'' = Inl (Raised ''ModuleNotFoundError'')
   \<and> main demo_os demo_ext_no_module demo_args =
       ([LoadYaml (Some ''vista.yaml''), ImportModule ''job_array.sweep''],
        Inl (Raised ''ModuleNotFoundError''))
   \<and> main demo_os demo_ext_no_function demo_args =
       ([LoadYaml (Some ''vista.yaml''), ImportModule ''job_array.sweep''],
        Inl (AttributeError ''update_exp_by_task_id''))"
proof -
  have name: "qualified_name (job_array_module demo_args) = ''job_array.sweep''"
    by (simp add: qualified_name_def demo_args_def)
  have "\<exists>exp. configure demo_os demo_ext_no_module demo_args
            = ([LoadYaml (Some ''vista.yaml'')], Inr (exp, 2))"
    by (simp add: demo_ext_no_module_def demo_defs eval_defs)
  then obtain exp where c1: "configure demo_os demo_ext_no_module demo_args
            = ([LoadYaml (Some ''vista.yaml'')], Inr (exp, 2))" ..
  have "\<exists>exp. configure demo_os demo_ext_no_function demo_args
            = ([LoadYaml (Some ''vista.yaml'')], Inr (exp, 2))"
    by (simp add: demo_ext_no_function_def demo_defs eval_defs)
  then obtain exp' where c2: "configure demo_os demo_ext_no_function demo_args
            = ([LoadYaml (Some ''vista.yaml'')], Inr (exp', 2))" ..
  have i1: "import_module demo_ext_no_module ''job_array.sweep'' = Inl (Raised ''ModuleNotFoundError'')"
    by (simp add: demo_ext_no_module_def)
  have i2: "import_module demo_ext_no_function ''job_array.sweep'' = Inr (\<lambda>attr. None)"
    by (simp add: demo_ext_no_function_def)
  show ?thesis
    using c1 i1 i2 missing_callback_is_fatal [OF c1] missing_callback_is_fatal [OF c2]
    by (simp add: name)
qed

subsection \<open>The run and the shutdown\<close>

lemma quiet_append: "quiet (xs @ ys) \<longleftrightarrow> quiet xs \<and> quiet ys"
  by (auto simp: quiet_def)

lemma quiet_lift: "quiet (fst (lift r))"
  by (simp add: quiet_def lift_def)

lemma quiet_ret: "quiet (fst (ret x))"
  by (simp add: quiet_def ret_def)

lemma quiet_call: "\<not> run_event ev \<Longrightarrow> quiet (fst (call ev r))"
  by (simp add: quiet_def call_def)

lemma obind_cases:
  obtains (failed) tr e where "m = (tr, Inl e)" and "obind m f = (tr, Inl e)"
  | (went_on) tr x tr' r where "m = (tr, Inr x)" and "f x = (tr', r)"
      and "obind m f = (tr @ tr', r)"
proof (cases m)
  case (Pair tr r)
  show thesis
  proof (cases r)
    case (Inl e)
    with Pair failed show thesis by simp
  next
    case (Inr x)
    obtain tr' r' where "f x = (tr', r')" by (cases "f x")
    with Pair Inr went_on show thesis by simp
  qed
qed

lemma quiet_obind:
  assumes "quiet (fst m)" and "\<And>x. quiet (fst (f x))"
  shows "quiet (fst (obind m f))"
proof (cases m f rule: obind_cases)
  case (failed tr e)
  with assms(1) show ?thesis by simp
next
  case (went_on tr x tr' r)
  with assms(1) assms(2) [of x] show ?thesis by (simp add: quiet_append)
qed

lemmas quiet_intros = quiet_obind quiet_lift quiet_ret quiet_call

lemma quiet_policy_loop: "quiet (fst (policy_loop pm ids exp))"
  by (induction ids arbitrary: exp) (auto intro!: quiet_intros)

lemma quiet_configure: "quiet (fst (configure os ext a))"
  unfolding configure_def by (auto intro!: quiet_intros)

lemma quiet_callback_step: "quiet (fst (callback_step ext a exp))"
  unfolding callback_step_def by (auto intro!: quiet_intros)

lemma quiet_startup: "quiet (fst (startup os ext a exp))"
  unfolding startup_def by (auto intro!: quiet_intros)

lemma quiet_callbacks_step: "quiet (fst (callbacks_step ext pm exp))"
  unfolding callbacks_step_def by (auto intro!: quiet_intros)

lemma quiet_multiagent_step: "quiet (fst (multiagent_step pm exp))"
  unfolding multiagent_step_def by (auto intro!: quiet_intros quiet_policy_loop)

lemma quiet_prepare: "quiet (fst (prepare os ext a))"
  unfolding prepare_def
  by (intro quiet_obind quiet_configure quiet_callback_step quiet_startup
      quiet_callbacks_step quiet_multiagent_step quiet_lift quiet_call quiet_ret
      | simp add: split_beta)+

lemma run_shape_prefix:
  assumes "quiet tr" and "run_shape ext args tr' r"
  shows "run_shape ext args (tr @ tr') r"
proof -
  from assms(2) consider (early) e where "quiet tr'" "r = Inl e"
    | (raised) pre ra e where "quiet pre" "tr' = pre @ [TuneRun ra]"
        "args = Inr ra" "tune_run ext ra = Inl e" "r = Inl e"
    | (returned) pre ra v where "quiet pre" "tr' = pre @ [TuneRun ra, RayShutdown]"
        "args = Inr ra" "tune_run ext ra = Inr v"
        "r = (case ray_shutdown ext of Inl e \<Rightarrow> Inl e | Inr u \<Rightarrow> Inr PNone)"
    unfolding run_shape_def by blast
  then show ?thesis
  proof cases
    case early
    with assms(1) show ?thesis by (simp add: run_shape_def quiet_append)
  next
    case raised
    have "quiet (tr @ pre)" and "tr @ tr' = (tr @ pre) @ [TuneRun ra]"
      using assms(1) raised(1,2) by (simp_all add: quiet_append)
    with raised(3,4,5) show ?thesis
      unfolding run_shape_def by blast
  next
    case returned
    have "quiet (tr @ pre)" and "tr @ tr' = (tr @ pre) @ [TuneRun ra, RayShutdown]"
      using assms(1) returned(1,2) by (simp_all add: quiet_append)
    with returned(3,4,5) show ?thesis
      unfolding run_shape_def by blast
  qed
qed

lemma run_shape_run_experiment:
  "run_shape ext (run_args_of ext exp_name verbose exp)
     (fst (run_experiment ext exp_name verbose exp))
     (snd (run_experiment ext exp_name verbose exp))"
proof (cases "getitem exp ''run''")
  case (Inl e)
  then show ?thesis
    by (simp add: run_experiment_def lift_def run_shape_def quiet_def)
next
  case run: (Inr run)
  show ?thesis
  proof (cases "get_trainer_class ext run")
    case (Inl e)
    then show ?thesis
      by (simp add: run_experiment_def lift_def call_def run run_shape_def quiet_def)
  next
    case trainer: (Inr trainer)
    show ?thesis
    proof (cases "assemble_run_args trainer exp_name verbose exp")
      case (Inl e)
      then show ?thesis
        by (simp add: run_experiment_def lift_def call_def run trainer run_shape_def quiet_def)
    next
      case ra: (Inr ra)
      have args: "run_args_of ext exp_name verbose exp = Inr ra"
        by (simp add: run_args_of_def run trainer ra)
      have pre: "quiet [GetTrainerClass run]"
        by (simp add: quiet_def)
      show ?thesis
      proof (cases "tune_run ext ra")
        case (Inl e)
        have "run_experiment ext exp_name verbose exp =
            ([GetTrainerClass run] @ [TuneRun ra], Inl e)"
          by (simp add: run_experiment_def lift_def call_def run trainer ra Inl)
        with args Inl pre show ?thesis
          unfolding run_shape_def by (metis fst_conv snd_conv)
      next
        case (Inr v)
        have "run_experiment ext exp_name verbose exp =
            ([GetTrainerClass run] @ [TuneRun ra, RayShutdown],
             case ray_shutdown ext of Inl e \<Rightarrow> Inl e | Inr u \<Rightarrow> Inr PNone)"
          by (simp add: run_experiment_def lift_def call_def ret_def run trainer ra Inr
              split: sum.splits)
        with args Inr pre show ?thesis
          unfolding run_shape_def by (metis fst_conv snd_conv)
      qed
    qed
  qed
qed

text \<open>
  A run of \<open>main\<close> either ends within lines 61 to 133, with a quiet trace, or it reaches
  line 135 with some \<open>exp\<close>, \<open>exp_name\<close> and \<open>verbose\<close> and has the shape that goes with
  the arguments built from these.
\<close>

lemma main_cases:
  assumes "main os ext a = (tr, r)"
  obtains (before) e where "quiet tr" and "r = Inl e"
  | (reached) pre exp exp_name verbose where
      "prepare os ext a = (pre, Inr (exp, exp_name, verbose))"
      and "run_shape ext (run_args_of ext exp_name verbose exp) tr r"
proof (cases "prepare os ext a" "\<lambda>(exp, exp_name, verbose). run_experiment ext exp_name verbose exp"
    rule: obind_cases)
  case (failed pre e)
  have "quiet pre"
    using quiet_prepare [of os ext a] failed(1) by simp
  moreover have "tr = pre" and "r = Inl e"
    using assms failed(2) by (simp_all add: main_def)
  ultimately show thesis
    using before by simp
next
  case (went_on pre x tr' r')
  obtain exp exp_name verbose where x: "x = (exp, exp_name, verbose)"
    by (cases x)
  have pre: "quiet pre"
    using quiet_prepare [of os ext a] went_on(1) by simp
  have run: "run_experiment ext exp_name verbose exp = (tr', r')"
    using went_on(2) by (simp add: x)
  have "run_shape ext (run_args_of ext exp_name verbose exp) tr' r'"
    using run_shape_run_experiment [of ext exp_name verbose exp] by (simp add: run)
  then have "run_shape ext (run_args_of ext exp_name verbose exp) (pre @ tr') r'"
    by (rule run_shape_prefix [OF pre])
  moreover have "tr = pre @ tr'" and "r = r'"
    using assms went_on(3) by (simp_all add: main_def)
  ultimately show thesis
    using reached went_on(1) by (simp add: x)
qed

text \<open>
  C9, as the script has it. In every run of \<open>main\<close>: a call of the runner has the arguments
  that lines 136 to 152 assemble from the descriptor, the name and the verbosity with which
  lines 61 to 133 ended; the shutdown, if it is called, is the last call, comes right after
  the call of the runner, which returned, and occurs nowhere before; an exception of the
  runner is the outcome of \<open>main\<close>, and the shutdown is then not called; a value that the
  runner returns is dropped, the shutdown is called, and \<open>main\<close> returns \<open>None\<close> (or
  ends in the exception of the shutdown).
\<close>

theorem shutdown_follows_run:
  assumes "main os ext a = (tr, r)"
  shows "(\<forall>ra. TuneRun ra \<in> set tr \<longrightarrow>
            (\<exists>pre exp exp_name verbose.
               prepare os ext a = (pre, Inr (exp, exp_name, verbose))
               \<and> run_args_of ext exp_name verbose exp = Inr ra))
       \<and> (RayShutdown \<in> set tr \<longrightarrow>
            (\<exists>pre ra v. tr = pre @ [TuneRun ra, RayShutdown] \<and> RayShutdown \<notin> set pre
               \<and> tune_run ext ra = Inr v))
       \<and> (\<forall>ra e. TuneRun ra \<in> set tr \<and> tune_run ext ra = Inl e \<longrightarrow>
            r = Inl e \<and> RayShutdown \<notin> set tr)
       \<and> (\<forall>ra v. TuneRun ra \<in> set tr \<and> tune_run ext ra = Inr v \<longrightarrow>
            RayShutdown \<in> set tr
            \<and> r = (case ray_shutdown ext of Inl e \<Rightarrow> Inl e | Inr u \<Rightarrow> Inr PNone))"
proof -
  have quietD: "\<not> run_event ev" if "quiet xs" and "ev \<in> set xs" for xs ev
    using that by (simp add: quiet_def)
  have silent: ?thesis if "quiet tr"
  proof -
    have "RayShutdown \<notin> set tr" and "TuneRun ra \<notin> set tr" for ra
      using quietD [OF that] by fastforce+
    then show ?thesis by simp
  qed
  from assms show ?thesis
  proof (cases rule: main_cases)
    case (before e)
    from before(1) show ?thesis by (rule silent)
  next
    case (reached p0 exp exp_name verbose)
    from reached(2) consider (early) e where "quiet tr" "r = Inl e"
      | (raised) pre ra e where "quiet pre" "tr = pre @ [TuneRun ra]"
          "run_args_of ext exp_name verbose exp = Inr ra" "tune_run ext ra = Inl e" "r = Inl e"
      | (returned) pre ra v where "quiet pre" "tr = pre @ [TuneRun ra, RayShutdown]"
          "run_args_of ext exp_name verbose exp = Inr ra" "tune_run ext ra = Inr v"
          "r = (case ray_shutdown ext of Inl e \<Rightarrow> Inl e | Inr u \<Rightarrow> Inr PNone)"
      unfolding run_shape_def by blast
    then show ?thesis
    proof cases
      case early
      from early(1) show ?thesis by (rule silent)
    next
      case raised
      have pre: "RayShutdown \<notin> set pre" "TuneRun ra' \<notin> set pre" for ra'
        using quietD [OF raised(1)] by fastforce+
      then have no_shutdown: "RayShutdown \<notin> set tr"
        and only: "TuneRun ra' \<in> set tr \<longleftrightarrow> ra' = ra" for ra'
        by (auto simp: raised(2))
      have args: "\<exists>pre exp exp_name verbose.
          prepare os ext a = (pre, Inr (exp, exp_name, verbose))
          \<and> run_args_of ext exp_name verbose exp = Inr ra"
        using reached(1) raised(3) by blast
      show ?thesis
        using args no_shutdown raised(4,5) by (auto simp: only)
    next
      case returned
      have pre: "RayShutdown \<notin> set pre" "TuneRun ra' \<notin> set pre" for ra'
        using quietD [OF returned(1)] by fastforce+
      then have only: "TuneRun ra' \<in> set tr \<longleftrightarrow> ra' = ra" for ra'
        by (auto simp: returned(2))
      have args: "\<exists>pre exp exp_name verbose.
          prepare os ext a = (pre, Inr (exp, exp_name, verbose))
          \<and> run_args_of ext exp_name verbose exp = Inr ra"
        using reached(1) returned(3) by blast
      have last: "\<exists>pre ra v. tr = pre @ [TuneRun ra, RayShutdown] \<and> RayShutdown \<notin> set pre
               \<and> tune_run ext ra = Inr v"
        using returned(2,4) pre(1) by blast
      have shut: "RayShutdown \<in> set tr"
        by (simp add: returned(2))
      show ?thesis
        using args last shut returned(4,5) by (auto simp: only)
    qed
  qed
qed

theorem shutdown_follows_run_witness:
  "RayShutdown \<in> set (fst (main demo_os demo_ext demo_args))
   \<and> TuneRun demo_run_args \<in> set (fst (main demo_os demo_ext demo_args))
   \<and> (\<exists>pre exp exp_name verbose.
         prepare demo_os demo_ext demo_args = (pre, Inr (exp, exp_name, verbose))
         \<and> run_args_of demo_ext exp_name verbose exp = Inr demo_run_args)
   \<and> (\<exists>pre ra v. fst (main demo_os demo_ext demo_args) = pre @ [TuneRun ra, RayShutdown]
         \<and> RayShutdown \<notin> set pre \<and> tune_run demo_ext ra = Inr v)
   \<and> TuneRun demo_run_args \<in> set (fst (main demo_os demo_ext_run_fails demo_args))
   \<and> tune_run demo_ext_run_fails demo_run_args = Inl (Raised ''TuneError'')
   \<and> snd (main demo_os demo_ext_run_fails demo_args) = Inl (Raised ''TuneError'')
   \<and> RayShutdown \<notin> set (fst (main demo_os demo_ext_run_fails demo_args))"
proof -
  have ok: "main demo_os demo_ext demo_args =
      (fst (main demo_os demo_ext demo_args), snd (main demo_os demo_ext demo_args))"
    and bad: "main demo_os demo_ext_run_fails demo_args =
      (fst (main demo_os demo_ext_run_fails demo_args),
       snd (main demo_os demo_ext_run_fails demo_args))"
    by simp_all
  have shut: "RayShutdown \<in> set (fst (main demo_os demo_ext demo_args))"
    by code_simp
  have ran: "TuneRun demo_run_args \<in> set (fst (main demo_os demo_ext demo_args))"
    by code_simp
  have ran': "TuneRun demo_run_args \<in> set (fst (main demo_os demo_ext_run_fails demo_args))"
    by code_simp
  have raised: "tune_run demo_ext_run_fails demo_run_args = Inl (Raised ''TuneError'')"
    by (simp add: demo_ext_run_fails_def)
  show ?thesis
    using shut ran ran' raised shutdown_follows_run [OF ok] shutdown_follows_run [OF bad]
    by blast
qed

text \<open>
  C9 as stated has the runner's return value propagated unchanged. In the sample run the
  runner is called with \<open>demo_run_args\<close> and returns an analysis object, and \<open>main\<close>
  returns \<open>None\<close>.
\<close>

theorem return_value_discarded:
  "TuneRun demo_run_args \<in> set (fst (main demo_os demo_ext demo_args))
   \<and> tune_run demo_ext demo_run_args = Inr (PObj ''analysis'')
   \<and> snd (main demo_os demo_ext demo_args) = Inr PNone"
  by code_simp

end
